theory Spec2Isabelle
  imports Main
begin

section \<open>The API client of digitalrebar provision (api/client.go)\<close>

text \<open>
  A shallow embedding of \<^verbatim>\<open>src/api/client.go\<close>: the session (\<^verbatim>\<open>Client\<close>), the chained
  request builder (\<^verbatim>\<open>R\<close>), the filter compiler (\<^verbatim>\<open>R.Filter\<close>), execution
  (\<^verbatim>\<open>R.Do\<close>) and the operations built from them.  Go strings are byte sequences and
  are modelled as \<^typ>\<open>string\<close>.  A method \<^verbatim>\<open>func (r *R) Name(...)\<close> is the function
  \<open>R_Name\<close>, a method of \<^verbatim>\<open>*Client\<close> is \<open>Client_Name\<close>; a method that mutates its
  receiver returns the updated receiver.
\<close>

section \<open>Functions of the Go standard library\<close>

subsection \<open>Bytes: letters, digits, case\<close>

definition upper_letters :: string where
  "upper_letters = ''ABCDEFGHIJKLMNOPQRSTUVWXYZ''"

definition lower_letters :: string where
  "lower_letters = ''abcdefghijklmnopqrstuvwxyz''"

definition digits :: string where
  "digits = ''0123456789''"

definition is_upper :: "char \<Rightarrow> bool" where
  "is_upper c = (c \<in> set upper_letters)"

definition is_lower :: "char \<Rightarrow> bool" where
  "is_lower c = (c \<in> set lower_letters)"

definition is_alnum :: "char \<Rightarrow> bool" where
  "is_alnum c = (c \<in> set upper_letters \<or> c \<in> set lower_letters \<or> c \<in> set digits)"

definition to_lower :: "char \<Rightarrow> char" where
  "to_lower c = (case map_of (zip upper_letters lower_letters) c of Some d \<Rightarrow> d | None \<Rightarrow> c)"

definition to_upper :: "char \<Rightarrow> char" where
  "to_upper c = (case map_of (zip lower_letters upper_letters) c of Some d \<Rightarrow> d | None \<Rightarrow> c)"

text \<open>
  \<^verbatim>\<open>strings.ToLower\<close> and \<^verbatim>\<open>strings.Title\<close> on bytes.  \<^verbatim>\<open>Title\<close> maps to title case each
  character that follows a separator (the start of the string counts as one); in ASCII
  every character but a letter, a digit and the underscore is a separator.  The case
  mapping is the ASCII one: a byte above 0x7F (a part of a multi-byte rune) is left as
  it is and separates nothing; Go's mapping of such runes through the Unicode tables is
  outside the model.
\<close>

definition ToLower :: "string \<Rightarrow> string" where
  "ToLower s = map to_lower s"

definition isSeparator :: "char \<Rightarrow> bool" where
  "isSeparator c = (\<not> is_alnum c \<and> c \<noteq> CHR ''_'' \<and> (of_char c :: nat) \<le> 127)"

fun Title_from :: "char \<Rightarrow> string \<Rightarrow> string" where
  "Title_from prev [] = []"
| "Title_from prev (c # cs) =
     (if isSeparator prev then to_upper c else c) # Title_from c cs"

definition Title :: "string \<Rightarrow> string" where
  "Title s = Title_from (CHR '' '') s"

text \<open>\<^verbatim>\<open>strings.Contains\<close>.\<close>

fun has_prefix :: "string \<Rightarrow> string \<Rightarrow> bool" where
  "has_prefix s [] = True"
| "has_prefix [] (p # ps) = False"
| "has_prefix (c # cs) (p # ps) = (c = p \<and> has_prefix cs ps)"

fun Contains :: "string \<Rightarrow> string \<Rightarrow> bool" where
  "Contains [] sub = has_prefix [] sub"
| "Contains (c # cs) sub = (has_prefix (c # cs) sub \<or> Contains cs sub)"

subsection \<open>net/url: query values and their encoding\<close>

text \<open>
  \<^verbatim>\<open>url.Values\<close> is a \<^verbatim>\<open>map[string][]string\<close>; \<^verbatim>\<open>Add\<close> appends a value to the key's list.
  \<^verbatim>\<open>Encode\<close> writes the keys in sorted (bytewise) order, the values of a key in the
  order they were added, each key and value through \<^verbatim>\<open>QueryEscape\<close>: a space becomes
  \<^verbatim>\<open>+\<close>, letters, digits and \<^verbatim>\<open>-_.~\<close> stay, every other byte becomes \<^verbatim>\<open>%XX\<close>.
\<close>

type_synonym Values = "(string \<times> string list) list"

fun Values_Add :: "Values \<Rightarrow> string \<Rightarrow> string \<Rightarrow> Values" where
  "Values_Add [] k v = [(k, [v])]"
| "Values_Add ((k', vs) # rest) k v =
     (if k' = k then (k', vs @ [v]) # rest else (k', vs) # Values_Add rest k v)"

definition shouldEscape :: "char \<Rightarrow> bool" where
  "shouldEscape c = (\<not> is_alnum c \<and> c \<notin> set ''-_.~'')"

definition upperhex :: "nat \<Rightarrow> char" where
  "upperhex n = ''0123456789ABCDEF'' ! (n mod 16)"

definition escape_byte :: "char \<Rightarrow> string" where
  "escape_byte c =
     (if c = CHR '' '' then ''+''
      else if shouldEscape c
        then [CHR ''%'', upperhex ((of_char c :: nat) div 16), upperhex ((of_char c :: nat) mod 16)]
      else [c])"

definition QueryEscape :: "string \<Rightarrow> string" where
  "QueryEscape s = concat (map escape_byte s)"

fun str_less :: "string \<Rightarrow> string \<Rightarrow> bool" where
  "str_less [] [] = False"
| "str_less [] (y # ys) = True"
| "str_less (x # xs) [] = False"
| "str_less (x # xs) (y # ys) =
     ((of_char x :: nat) < of_char y \<or> (x = y \<and> str_less xs ys))"

fun insert_key :: "string \<times> string list \<Rightarrow> Values \<Rightarrow> Values" where
  "insert_key e [] = [e]"
| "insert_key e (e' # rest) =
     (if str_less (fst e) (fst e') then e # e' # rest else e' # insert_key e rest)"

definition sort_keys :: "Values \<Rightarrow> Values" where
  "sort_keys v = foldr insert_key v []"

definition encode_key :: "string \<times> string list \<Rightarrow> string list" where
  "encode_key e = map (\<lambda>v. QueryEscape (fst e) @ ''='' @ QueryEscape v) (snd e)"

fun join_amp :: "string list \<Rightarrow> string" where
  "join_amp [] = []"
| "join_amp [p] = p"
| "join_amp (p # q # ps) = p @ ''&'' @ join_amp (q # ps)"

definition Encode :: "Values \<Rightarrow> string" where
  "Encode v = join_amp (concat (map encode_key (sort_keys v)))"

subsection \<open>net/http: headers\<close>

text \<open>
  \<^verbatim>\<open>http.Header\<close> is a \<^verbatim>\<open>map[string][]string\<close> whose keys are canonical: \<^verbatim>\<open>Add\<close>, \<^verbatim>\<open>Set\<close>
  and \<^verbatim>\<open>Get\<close> pass the key through \<^verbatim>\<open>textproto.CanonicalMIMEHeaderKey\<close>, which upper-cases
  the first letter and each letter after a hyphen and lower-cases the others, and
  returns a key with a byte that is no header token byte as it is.
\<close>

type_synonym Header = "string \<rightharpoonup> string list"

definition validHeaderFieldByte :: "char \<Rightarrow> bool" where
  "validHeaderFieldByte c =
     (is_alnum c \<or> c \<in> set ''!#$%&*+-.^_|~'' \<or> c = CHR 0x27 \<or> c = CHR 0x60)"

definition canonical_byte :: "bool \<Rightarrow> char \<Rightarrow> char" where
  "canonical_byte upper c =
     (if upper \<and> is_lower c then to_upper c
      else if \<not> upper \<and> is_upper c then to_lower c else c)"

fun canonical_from :: "bool \<Rightarrow> string \<Rightarrow> string" where
  "canonical_from upper [] = []"
| "canonical_from upper (c # cs) =
     canonical_byte upper c # canonical_from (canonical_byte upper c = CHR ''-'') cs"

definition CanonicalMIMEHeaderKey :: "string \<Rightarrow> string" where
  "CanonicalMIMEHeaderKey s =
     (if list_all validHeaderFieldByte s then canonical_from True s else s)"

definition Header_values :: "Header \<Rightarrow> string \<Rightarrow> string list" where
  "Header_values h k = (case h (CanonicalMIMEHeaderKey k) of None \<Rightarrow> [] | Some vs \<Rightarrow> vs)"

definition Header_Add :: "Header \<Rightarrow> string \<Rightarrow> string \<Rightarrow> Header" where
  "Header_Add h k v = h(CanonicalMIMEHeaderKey k \<mapsto> Header_values h k @ [v])"

definition Header_Set :: "Header \<Rightarrow> string \<Rightarrow> string \<Rightarrow> Header" where
  "Header_Set h k v = h(CanonicalMIMEHeaderKey k \<mapsto> [v])"

definition Header_Get :: "Header \<Rightarrow> string \<Rightarrow> string" where
  "Header_Get h k = (case Header_values h k of [] \<Rightarrow> [] | v # vs \<Rightarrow> v)"

subsection \<open>URLs, requests and responses\<close>

text \<open>
  A parsed \<^verbatim>\<open>url.URL\<close>: the client reads and writes only its \<^verbatim>\<open>RawQuery\<close>; \<open>Location\<close>
  stands for all its other parts (scheme, host, path) as the parser left them.
\<close>

record URL =
  Location :: string
  RawQuery :: string

text \<open>What the client sets of an \<^verbatim>\<open>http.Request\<close> and reads of an \<^verbatim>\<open>http.Response\<close>.\<close>

record Request =
  Method :: string
  URL :: URL
  Header :: Header
  Body :: "string option"

record Response =
  StatusCode :: int
  RespHeader :: Header
  ContentLength :: int
  RespBody :: string

section \<open>Package models: errors, models, tokens\<close>

text \<open>
  Modelled from the spec: the type \<^verbatim>\<open>models.Error\<close>, which package \<^verbatim>\<open>models\<close> declares
  and the sources do not hold.  The spec: a structured error value carrying a kind, the
  associated resource type and key, an HTTP status code (0 if no response was received)
  and a growing list of messages.  \<open>containsError\<close> is its "has error" boolean view.
\<close>

record Error =
  Model :: string
  Key :: string
  Type :: string
  Messages :: "string list"
  Code :: int
  containsError :: bool

text \<open>A value of Go's \<^verbatim>\<open>error\<close> interface that is not nil: a \<^verbatim>\<open>*models.Error\<close>, or any other
  error, of which the client reads only the message.\<close>

datatype error = ModelsError Error | OtherError string

text \<open>
  Modelled from the spec: the method \<^verbatim>\<open>Errorf\<close> of \<^verbatim>\<open>models.Error\<close>, which the sources do
  not hold.  It adds one message to the growing list, here given already formatted, and
  the value has an error from then on.
\<close>

definition Errorf :: "Error \<Rightarrow> string \<Rightarrow> Error" where
  "Errorf e msg = e\<lparr>Messages := Messages e @ [msg], containsError := True\<rparr>"

text \<open>
  Modelled from the spec: the method \<^verbatim>\<open>AddError\<close> of \<^verbatim>\<open>models.Error\<close>, which the sources do
  not hold: merging with an arbitrary error.  Nil adds nothing; another
  \<^verbatim>\<open>models.Error\<close> adds its messages, any other error its message.
\<close>

definition AddError :: "Error \<Rightarrow> error option \<Rightarrow> Error" where
  "AddError e src =
     (case src of
        None \<Rightarrow> e
      | Some (ModelsError other) \<Rightarrow>
          e\<lparr>Messages := Messages e @ Messages other, containsError := True\<rparr>
      | Some (OtherError msg) \<Rightarrow> e\<lparr>Messages := Messages e @ [msg], containsError := True\<rparr>)"

text \<open>
  Modelled from the spec: the method \<^verbatim>\<open>ContainsError\<close> of \<^verbatim>\<open>models.Error\<close>, which the
  sources do not hold: the "has error" boolean view.
\<close>

definition ContainsError :: "Error \<Rightarrow> bool" where
  "ContainsError e = containsError e"

text \<open>
  Modelled from the spec: the method \<^verbatim>\<open>HasError\<close> of \<^verbatim>\<open>models.Error\<close>, which the sources
  do not hold: the aggregate state as an error, nil if no error was ever recorded.
\<close>

definition HasError :: "Error \<Rightarrow> error option" where
  "HasError e = (if containsError e then Some (ModelsError e) else None)"

text \<open>
  Modelled from the spec: the interface \<^verbatim>\<open>models.Model\<close>, which the sources do not hold.
  The spec: a resource type exposes a stable type identifier (its prefix) and a unique
  key.  The client calls \<^verbatim>\<open>Prefix()\<close> and \<^verbatim>\<open>Key()\<close> and prints the Go type of the value
  (\<^verbatim>\<open>%T\<close>); \<open>Content\<close> stands for its other fields.
\<close>

record ModelObj =
  Prefix :: string
  ModelKey :: string
  GoType :: string
  Content :: string

text \<open>
  Modelled from the spec: the type \<^verbatim>\<open>models.UserToken\<close>, which the sources do not hold.
  The spec: an opaque string value with a validity window; the window is the server's,
  and the client reads only the field \<^verbatim>\<open>Token\<close>.
\<close>

record UserToken =
  Token :: string

text \<open>
  Modelled from the spec: the type \<^verbatim>\<open>jsonpatch2.Patch\<close> of another package.  The spec: an
  ordered sequence of operations, each with an action, a path and a value.
\<close>

record Operation =
  Op :: string
  Path :: string
  Value :: string

type_synonym Patch = "Operation list"

section \<open>Arguments of dynamic type\<close>

text \<open>
  The \<^verbatim>\<open>interface{}\<close> argument of \<^verbatim>\<open>Body\<close>, by the cases of its type switch: nil, an
  \<^verbatim>\<open>io.Reader\<close> (with the bytes it yields), a byte slice, or a value to be marshalled.
\<close>

datatype payload =
  NilBody
| ReaderBody string
| BytesBody string
| PatchBody Patch
| ModelBody ModelObj

text \<open>
  The \<^verbatim>\<open>interface{}\<close> argument of \<^verbatim>\<open>Do\<close>: nil, an \<^verbatim>\<open>io.Writer\<close> (with the error, if any,
  that \<^verbatim>\<open>io.Copy\<close> of the given bytes into it returns), or a value to decode into.
\<close>

datatype dest =
  NilDest
| WriterDest "string \<Rightarrow> string option"
| ValueDest

fun is_Writer :: "dest \<Rightarrow> bool" where
  "is_Writer (WriterDest w) = True"
| "is_Writer d = False"

fun is_Nil :: "dest \<Rightarrow> bool" where
  "is_Nil NilDest = True"
| "is_Nil d = False"

section \<open>What the client calls outside this file\<close>

text \<open>
  Functions of the standard library and of other packages that the client calls and
  this theory leaves open; an error is its message (\<open>Inl\<close>).
  \<^item> \<open>path_Join\<close>, \<open>ParseRequestURI\<close>: \<^verbatim>\<open>path.Join\<close>, \<^verbatim>\<open>url.ParseRequestURI\<close>;
  \<^item> \<open>NewRequest_error\<close>: the error with which \<^verbatim>\<open>http.NewRequest\<close> refuses a method and URL;
  \<^item> \<open>StatusText\<close>, \<open>ParseMediaType\<close>: \<^verbatim>\<open>http.StatusText\<close>, \<^verbatim>\<open>mime.ParseMediaType\<close>;
  \<^item> \<open>Marshal\<close>: \<^verbatim>\<open>json.Marshal\<close>; \<open>Decode\<close>: a JSON decoder's \<^verbatim>\<open>Decode\<close> of the response
    body into the destination; \<open>Decode_Error\<close>: the same into a \<^verbatim>\<open>models.Error\<close>;
  \<^item> \<open>EncodeToString\<close>: \<^verbatim>\<open>base64.StdEncoding.EncodeToString\<close>;
  \<^item> \<open>GenPatch\<close>: the patch generator \<^verbatim>\<open>GenPatch(old, new, paranoid)\<close> of this package,
    defined in a file that is not among the sources.
\<close>

record 'v lib =
  path_Join :: "string list \<Rightarrow> string"
  ParseRequestURI :: "string \<Rightarrow> string + URL"
  NewRequest_error :: "string \<Rightarrow> URL \<Rightarrow> string option"
  StatusText :: "int \<Rightarrow> string"
  ParseMediaType :: "string \<Rightarrow> string"
  Marshal :: "payload \<Rightarrow> string + string"
  Decode :: "dest \<Rightarrow> string \<Rightarrow> string + 'v"
  Decode_Error :: "string \<Rightarrow> string + Error"
  EncodeToString :: "string \<Rightarrow> string"
  GenPatch :: "ModelObj \<Rightarrow> ModelObj \<Rightarrow> bool \<Rightarrow> error + Patch"

section \<open>The session and the request builder\<close>

definition APIPATH :: string where
  "APIPATH = ''/api/v3''"

text \<open>The channel \<^verbatim>\<open>closer\<close>: open, or closed by \<^verbatim>\<open>close(c.closer)\<close>.\<close>

datatype chan = ChanOpen | ChanClosed

record Client =
  endpoint :: string
  username :: string
  password :: string
  token :: "UserToken option"
  closer :: chan
  closed :: bool
  traceLvl :: string
  traceToken :: string

record R =
  method' :: string
  uri :: "URL option"
  header :: Header
  body :: "string option"
  Req :: "Request option"
  Resp :: "Response option"
  err :: Error
  paranoid :: bool
  traceLvl :: string
  traceToken :: string

text \<open>
  The field \<^verbatim>\<open>c\<close> of \<^verbatim>\<open>R\<close> points to the session; the functions that read the session
  through it (\<open>R_UrlFor\<close>, \<open>R_Do\<close>) take its current state as an argument.
  The field \<open>method'\<close> is \<^verbatim>\<open>method\<close>, which Isabelle reserves.
\<close>

definition Client_UrlFor :: "'v lib \<Rightarrow> Client \<Rightarrow> string list \<Rightarrow> string + URL" where
  "Client_UrlFor l c args =
     ParseRequestURI l (endpoint c @ path_Join l [APIPATH, path_Join l args])"

definition Client_Trace :: "Client \<Rightarrow> string \<Rightarrow> Client" where
  "Client_Trace c lvl = c\<lparr>Client.traceLvl := lvl\<rparr>"

definition Client_TraceToken :: "Client \<Rightarrow> string \<Rightarrow> Client" where
  "Client_TraceToken c t = c\<lparr>Client.traceToken := t\<rparr>"

definition Client_Req :: "Client \<Rightarrow> R" where
  "Client_Req c =
     \<lparr>method' = ''GET'', uri = None, header = Map.empty, body = None, Req = None,
      Resp = None,
      err = \<lparr>Model = [], Key = [], Type = ''CLIENT_ERROR'', Messages = [], Code = 0,
             containsError = False\<rparr>,
      paranoid = False, traceLvl = Client.traceLvl c, traceToken = Client.traceToken c\<rparr>"

definition R_Trace :: "R \<Rightarrow> string \<Rightarrow> R" where
  "R_Trace r lvl = r\<lparr>traceLvl := lvl\<rparr>"

definition R_TraceToken :: "R \<Rightarrow> string \<Rightarrow> R" where
  "R_TraceToken r t = r\<lparr>traceToken := t\<rparr>"

definition R_Meth :: "R \<Rightarrow> string \<Rightarrow> R" where
  "R_Meth r v = r\<lparr>method' := v\<rparr>"

definition R_Get :: "R \<Rightarrow> R" where
  "R_Get r = R_Meth r ''GET''"

definition R_Del :: "R \<Rightarrow> R" where
  "R_Del r = R_Meth r ''DELETE''"

definition R_Head :: "R \<Rightarrow> R" where
  "R_Head r = R_Meth r ''HEAD''"

definition R_UrlFor :: "'v lib \<Rightarrow> Client \<Rightarrow> R \<Rightarrow> string list \<Rightarrow> R" where
  "R_UrlFor l c r args =
     (case Client_UrlFor l c args of
        Inl e \<Rightarrow> r\<lparr>err := AddError (err r) (Some (OtherError e))\<rparr>
      | Inr res \<Rightarrow> r\<lparr>uri := Some res\<rparr>)"

definition R_UrlForM :: "'v lib \<Rightarrow> Client \<Rightarrow> R \<Rightarrow> ModelObj \<Rightarrow> string list \<Rightarrow> R" where
  "R_UrlForM l c r m rest =
     R_UrlFor l c (r\<lparr>err := (err r)\<lparr>Model := Prefix m, Key := ModelKey m\<rparr>\<rparr>)
       ([Prefix m, ModelKey m] @ rest)"

definition R_List :: "'v lib \<Rightarrow> Client \<Rightarrow> R \<Rightarrow> string \<Rightarrow> R" where
  "R_List l c r prefix = R_UrlFor l c (R_Get r) [prefix]"

text \<open>
  The loops of \<^verbatim>\<open>Params\<close> and \<^verbatim>\<open>Headers\<close>,
  \<^verbatim>\<open>for i := 1; i < len(args); i += 2 { x.Add(args[i-1], args[i]) }\<close>:
  the arguments two by two, from the left.
\<close>

fun add_values :: "Values \<Rightarrow> string list \<Rightarrow> Values" where
  "add_values v (k # x # rest) = add_values (Values_Add v k x) rest"
| "add_values v rest = v"

fun add_headers :: "Header \<Rightarrow> string list \<Rightarrow> Header" where
  "add_headers h (k # x # rest) = add_headers (Header_Add h k x) rest"
| "add_headers h rest = h"

definition R_Params :: "R \<Rightarrow> string list \<Rightarrow> R" where
  "R_Params r args =
     (case uri r of
        None \<Rightarrow> r\<lparr>err := Errorf (err r) ''Cannot call WithParams before UrlFor or UrlForM''\<rparr>
      | Some u \<Rightarrow>
          if odd (length args)
          then r\<lparr>err := Errorf (err r) ''WithParams was not passed an even number of arguments''\<rparr>
          else r\<lparr>uri := Some (u\<lparr>RawQuery := Encode (add_values [] args)\<rparr>)\<rparr>)"

definition R_Headers :: "R \<Rightarrow> string list \<Rightarrow> R" where
  "R_Headers r args =
     (if odd (length args)
      then r\<lparr>err := Errorf (err r) ''WithHeaders was not passed an even number of arguments''\<rparr>
      else r\<lparr>header := add_headers (header r) args\<rparr>)"

subsection \<open>The filter compiler\<close>

text \<open>
  The case labels of the two \<^verbatim>\<open>switch\<close> statements of \<^verbatim>\<open>Filter\<close>, but \<^verbatim>\<open>"reverse"\<close>.
\<close>

definition one_parameter_filters :: "string list" where
  "one_parameter_filters = [''sort'', ''limit'', ''offset'']"

definition unary_ops :: "string list" where
  "unary_ops = [''Eq'', ''Lt'', ''Lte'', ''Gt'', ''Gte'', ''Ne'']"

definition binary_ops :: "string list" where
  "binary_ops = [''Between'', ''Except'']"

text \<open>
  The loop of \<^verbatim>\<open>Filter\<close> over the index \<open>i\<close> into \<open>filterArgs\<close>, with the parameters
  collected so far.  A \<^verbatim>\<open>return r\<close> after \<^verbatim>\<open>r.err.Errorf\<close> is \<open>Inl\<close> of the message; leaving
  the loop is \<open>Inr\<close> of the final parameters.  The index never exceeds the length, so
  the differences \<^verbatim>\<open>len(filterArgs)-i\<close> are those of Go's integers.  The operator
  \<^verbatim>\<open>op\<close> is \<^verbatim>\<open>strings.Title(strings.ToLower(filterArgs[i+1]))\<close>, and \<^verbatim>\<open>i += 2\<close> comes before
  the inner \<^verbatim>\<open>switch\<close>, whose values are at \<open>i + 2\<close> and \<open>i + 2 + 1\<close> here.
\<close>

function Filter_loop :: "string list \<Rightarrow> nat \<Rightarrow> string list \<Rightarrow> string + string list" where
  "Filter_loop filterArgs i finalParams =
     (if \<not> i < length filterArgs then Inr finalParams
      else if filterArgs ! i = ''reverse''
        then Filter_loop filterArgs (i + 1) (finalParams @ [filterArgs ! i, ''true''])
      else if filterArgs ! i \<in> set one_parameter_filters
        then (if length filterArgs - i < 2
              then Inl (''Invalid Filter: '' @ filterArgs ! i @ '' requires exactly one parameter'')
              else Filter_loop filterArgs (i + 2)
                     (finalParams @ [filterArgs ! i, filterArgs ! (i + 1)]))
      else if length filterArgs - i < 2
        then Inl (''Invalid Filter: '' @ filterArgs ! i
                    @ '' requires an op and at least 1 parameter'')
      else if Title (ToLower (filterArgs ! (i + 1))) \<in> set unary_ops
        then (if length filterArgs - (i + 2) < 1
              then Inl (''Invalid Filter: '' @ filterArgs ! i @ '' op ''
                          @ Title (ToLower (filterArgs ! (i + 1))) @ '' requires 1 parameter'')
              else Filter_loop filterArgs (i + 2 + 1)
                     (finalParams @ [filterArgs ! i,
                        Title (ToLower (filterArgs ! (i + 1))) @ ''('' @ filterArgs ! (i + 2)
                          @ '')'']))
      else if Title (ToLower (filterArgs ! (i + 1))) \<in> set binary_ops
        then (if length filterArgs - (i + 2) < 2
              then Inl (''Invalid Filter: '' @ filterArgs ! i @ '' op ''
                          @ Title (ToLower (filterArgs ! (i + 1))) @ '' requires 2 parameters'')
              else Filter_loop filterArgs (i + 2 + 2)
                     (finalParams @ [filterArgs ! i,
                        Title (ToLower (filterArgs ! (i + 1))) @ ''('' @ filterArgs ! (i + 2)
                          @ '','' @ filterArgs ! (i + 2 + 1) @ '')'']))
      else Inl (''Invalid Filter '' @ filterArgs ! i @ '': unknown op ''
                  @ Title (ToLower (filterArgs ! (i + 1)))))"
  by pat_completeness auto
termination
  by (relation "measure (\<lambda>(filterArgs, i, finalParams). length filterArgs - i)") auto

declare Filter_loop.simps [simp del]

definition R_Filter :: "'v lib \<Rightarrow> Client \<Rightarrow> R \<Rightarrow> string \<Rightarrow> string list \<Rightarrow> R" where
  "R_Filter l c r prefix filterArgs =
     (let r1 = R_UrlFor l c (R_Get r) [prefix]
      in case Filter_loop filterArgs 0 [] of
           Inl msg \<Rightarrow> r1\<lparr>err := Errorf (err r1) msg\<rparr>
         | Inr finalParams \<Rightarrow> R_Params r1 finalParams)"

subsection \<open>Bodies and patches\<close>

definition R_Body :: "'v lib \<Rightarrow> R \<Rightarrow> payload \<Rightarrow> R" where
  "R_Body l r b =
     (case b of
        NilBody \<Rightarrow> R_Headers r [''Content-Type'', ''application/json'']
      | ReaderBody obj \<Rightarrow>
          (R_Headers r [''Content-Type'', ''application/octet-stream''])\<lparr>body := Some obj\<rparr>
      | BytesBody obj \<Rightarrow>
          (R_Headers r [''Content-Type'', ''application/octet-stream''])\<lparr>body := Some obj\<rparr>
      | _ \<Rightarrow>
          (let r1 = R_Headers r [''Content-Type'', ''application/json'']
           in case Marshal l b of
                Inl e \<Rightarrow> r1\<lparr>err := AddError (err r1) (Some (OtherError e))\<rparr>
              | Inr buf \<Rightarrow> r1\<lparr>body := Some buf\<rparr>))"

definition R_Put :: "'v lib \<Rightarrow> R \<Rightarrow> payload \<Rightarrow> R" where
  "R_Put l r b = R_Body l (R_Meth r ''PUT'') b"

definition R_Post :: "'v lib \<Rightarrow> R \<Rightarrow> payload \<Rightarrow> R" where
  "R_Post l r b = R_Body l (R_Meth r ''POST'') b"

definition R_Patch :: "'v lib \<Rightarrow> R \<Rightarrow> Patch \<Rightarrow> R" where
  "R_Patch l r b = R_Body l (R_Meth r ''PATCH'') (PatchBody b)"

definition R_ParanoidPatch :: "R \<Rightarrow> R" where
  "R_ParanoidPatch r = r\<lparr>paranoid := True\<rparr>"

definition R_PatchObj :: "'v lib \<Rightarrow> R \<Rightarrow> ModelObj \<Rightarrow> ModelObj \<Rightarrow> R" where
  "R_PatchObj l r old new =
     (case GenPatch l old new (paranoid r) of
        Inl e \<Rightarrow> r\<lparr>err := AddError (err r) (Some e)\<rparr>
      | Inr b \<Rightarrow> R_Body l (R_Meth r ''PATCH'') (PatchBody b))"

text \<open>
  The message of \<^verbatim>\<open>PatchTo\<close>,
  \<^verbatim>\<open>"Cannot patch from %T to %T, or change keys from %s to %s"\<close> of \<^verbatim>\<open>old\<close>, \<^verbatim>\<open>new\<close> and their
  keys.  \<^verbatim>\<open>PatchTo\<close> assigns \<^verbatim>\<open>r.err.Model\<close> twice, the prefix and then the key.
\<close>

definition patch_mismatch :: "ModelObj \<Rightarrow> ModelObj \<Rightarrow> string" where
  "patch_mismatch old new =
     ''Cannot patch from '' @ GoType old @ '' to '' @ GoType new
       @ '', or change keys from '' @ ModelKey old @ '' to '' @ ModelKey new"

definition R_PatchTo :: "'v lib \<Rightarrow> Client \<Rightarrow> R \<Rightarrow> ModelObj \<Rightarrow> ModelObj \<Rightarrow> R" where
  "R_PatchTo l c r old new =
     (if Prefix old \<noteq> Prefix new \<or> ModelKey old \<noteq> ModelKey new
      then r\<lparr>err := Errorf ((err r)\<lparr>Model := Prefix old, Model := ModelKey old\<rparr>)
                     (patch_mismatch old new)\<rparr>
      else R_UrlForM l c (R_PatchObj l r old new) old [])"

subsection \<open>Execution\<close>

definition Client_Token :: "Client \<Rightarrow> string" where
  "Client_Token c = (case token c of None \<Rightarrow> [] | Some t \<Rightarrow> Token t)"

definition Client_Authorize :: "Client \<Rightarrow> Request \<Rightarrow> Request" where
  "Client_Authorize c req =
     (if Header_Get (Header req) ''Authorization'' = []
      then req\<lparr>Header := Header_Set (Header req) ''Authorization'' (''Bearer '' @ Client_Token c)\<rparr>
      else req)"

text \<open>
  What a call of \<^verbatim>\<open>Do\<close> does: the error it returns (\<open>None\<close> is nil), the builder as the
  call leaves it, the requests it handed to the transport (\<^verbatim>\<open>r.c.Do(req)\<close>), the bytes it
  gave to \<^verbatim>\<open>io.Copy\<close> and the value it decoded into the destination.
\<close>

record 'v DoResult =
  returned :: "error option"
  final :: R
  sent :: "Request list"
  copied :: "string option"
  decoded :: "'v option"

text \<open>\<^verbatim>\<open>return r.err\<close> before any request exists.\<close>

definition Do_fail :: "R \<Rightarrow> 'v DoResult" where
  "Do_fail r =
     \<lparr>returned = Some (ModelsError (err r)), final = r, sent = [], copied = None,
      decoded = None\<rparr>"

text \<open>Lines 393 to 401: the trace headers and the \<^verbatim>\<open>Accept\<close> header.\<close>

definition Do_headers :: "R \<Rightarrow> dest \<Rightarrow> R" where
  "Do_headers r val =
     (let r1 = (if traceLvl r \<noteq> []
                then R_Headers (R_Headers r [''X-Log-Request'', traceLvl r])
                       [''X-Log-Token'', traceToken r]
                else r);
          r2 = R_Headers r1 [''Accept'', ''application/json'']
      in if is_Writer val then R_Headers r2 [''Accept'', ''application/octet-stream''] else r2)"

fun copy_error :: "dest \<Rightarrow> string \<Rightarrow> error option" where
  "copy_error (WriterDest w) bytes = map_option OtherError (w bytes)"
| "copy_error d bytes = None"

text \<open>
  Lines 415 to 466: what \<^verbatim>\<open>Do\<close> makes of the response.  The transport's response has a
  body that is not nil.  The call of \<^verbatim>\<open>Fill\<close> at line 462 is guarded by \<^verbatim>\<open>err != nil\<close> for
  the transport's error, which is nil here: it never runs.
\<close>

definition Do_response :: "'v lib \<Rightarrow> R \<Rightarrow> dest \<Rightarrow> Request \<Rightarrow> Response \<Rightarrow> 'v DoResult" where
  "Do_response l r0 val req resp =
     (let r = r0\<lparr>Resp := Some resp\<rparr>;
          ct = Header_Get (RespHeader resp) ''Content-Type''
      in if is_Writer val \<and> StatusCode resp < 300
         then (let e = AddError (err r) (copy_error val (RespBody resp))
               in \<lparr>returned = HasError e, final = r\<lparr>err := e\<rparr>, sent = [req],
                   copied = Some (RespBody resp), decoded = None\<rparr>)
         else if method' r = ''HEAD''
         then (if StatusCode resp \<le> 300
               then \<lparr>returned = None, final = r, sent = [req], copied = None, decoded = None\<rparr>
               else (let e = (Errorf (err r) (StatusText l (StatusCode resp)))
                               \<lparr>Code := StatusCode resp\<rparr>
                     in \<lparr>returned = Some (ModelsError e), final = r\<lparr>err := e\<rparr>, sent = [req],
                         copied = None, decoded = None\<rparr>))
         else if ParseMediaType l ct \<noteq> ''application/json''
         then (let e = Errorf (Errorf (err r) (''Cannot handle content-type '' @ ct))
                         (''No decoder for content-type '' @ ct)
               in \<lparr>returned = Some (ModelsError e), final = r\<lparr>err := e\<rparr>, sent = [req],
                   copied = None, decoded = None\<rparr>)
         else if StatusCode resp \<ge> 400
         then (case Decode_Error l (RespBody resp) of
                 Inl m \<Rightarrow>
                   (let e = AddError ((err r)\<lparr>Code := StatusCode resp\<rparr>) (Some (OtherError m))
                    in \<lparr>returned = Some (ModelsError e), final = r\<lparr>err := e\<rparr>, sent = [req],
                        copied = None, decoded = None\<rparr>)
               | Inr res \<Rightarrow>
                   \<lparr>returned = Some (ModelsError res), final = r, sent = [req], copied = None,
                    decoded = None\<rparr>)
         else if \<not> is_Nil val \<and> ContentLength resp \<noteq> 0
         then (case Decode l val (RespBody resp) of
                 Inl m \<Rightarrow>
                   (let e = AddError (err r) (Some (OtherError m))
                    in \<lparr>returned = HasError e, final = r\<lparr>err := e\<rparr>, sent = [req],
                        copied = None, decoded = None\<rparr>)
               | Inr v \<Rightarrow>
                   \<lparr>returned = HasError (err r), final = r, sent = [req], copied = None,
                    decoded = Some v\<rparr>)
         else \<lparr>returned = HasError (err r), final = r, sent = [req], copied = None,
               decoded = None\<rparr>)"

text \<open>Lines 402 to 409: the request, with the builder's header, authorized.\<close>

definition Do_request :: "Client \<Rightarrow> R \<Rightarrow> URL \<Rightarrow> Request" where
  "Do_request c r u =
     Client_Authorize c
       \<lparr>Method = (if method' r = [] then ''GET'' else method' r), URL = u, Header = header r,
        Body = body r\<rparr>"

text \<open>
  \<^verbatim>\<open>Do\<close>.  The transport is the function \<open>net\<close>: the response to a request, or the
  message of the transport's error.  \<^verbatim>\<open>http.NewRequest\<close> parses \<^verbatim>\<open>r.uri.String()\<close>; the
  request's URL is taken to be \<^verbatim>\<open>r.uri\<close> again, and an empty method is GET.
  \<^verbatim>\<open>req.Header = r.header\<close> shares the header map, so the header that \<^verbatim>\<open>Authorize\<close> sets
  is in \<^verbatim>\<open>r.header\<close> too.
\<close>

definition R_Do ::
  "'v lib \<Rightarrow> (Request \<Rightarrow> string + Response) \<Rightarrow> Client \<Rightarrow> R \<Rightarrow> dest \<Rightarrow> 'v DoResult" where
  "R_Do l net c r val =
     (case uri r of
        None \<Rightarrow> Do_fail (r\<lparr>err := Errorf (err r) ''No URL to talk to''\<rparr>)
      | Some u \<Rightarrow>
          if closed c then Do_fail (r\<lparr>err := Errorf (err r) ''Connection Closed''\<rparr>)
          else if ContainsError (err r) then Do_fail r
          else (let r1 = Do_headers r val
                in case NewRequest_error l (method' r1) u of
                     Some m \<Rightarrow> Do_fail (r1\<lparr>err := AddError (err r1) (Some (OtherError m))\<rparr>)
                   | None \<Rightarrow>
                       (let req = Do_request c r1 u;
                            r2 = r1\<lparr>header := Header req, Req := Some req\<rparr>
                        in case net req of
                             Inl m \<Rightarrow>
                               (let e = AddError (err r2) (Some (OtherError m))
                                in \<lparr>returned = Some (ModelsError e), final = r2\<lparr>err := e\<rparr>,
                                    sent = [req], copied = None, decoded = None\<rparr>)
                           | Inr resp \<Rightarrow> Do_response l r2 val req resp)))"

subsection \<open>Operations of the session\<close>

text \<open>
  \<^verbatim>\<open>Close\<close>: the send on \<^verbatim>\<open>c.closer\<close> is taken by the session's goroutine; on a channel that
  is closed already it panics (\<open>None\<close>).
\<close>

definition Client_Close :: "Client \<Rightarrow> Client option" where
  "Client_Close c =
     (if closer c = ChanClosed then None
      else Some (c\<lparr>closer := ChanClosed, closed := True\<rparr>))"

text \<open>
  \<^verbatim>\<open>ExistsModel\<close>: the call of \<^verbatim>\<open>Do\<close> at line 595, and what is returned for its error.
\<close>

definition ExistsModel_Do ::
  "'v lib \<Rightarrow> (Request \<Rightarrow> string + Response) \<Rightarrow> Client \<Rightarrow> string \<Rightarrow> string
     \<Rightarrow> 'v DoResult" where
  "ExistsModel_Do l net c prefix key =
     R_Do l net c (R_UrlFor l c (R_Head (Client_Req c)) [prefix, key]) NilDest"

definition Client_ExistsModel ::
  "'v lib \<Rightarrow> (Request \<Rightarrow> string + Response) \<Rightarrow> Client \<Rightarrow> string \<Rightarrow> string
     \<Rightarrow> bool \<times> error option" where
  "Client_ExistsModel l net c prefix key =
     (let e = returned (ExistsModel_Do l net c prefix key)
      in if (case e of Some (ModelsError e') \<Rightarrow> Code e' = 404 | _ \<Rightarrow> False) then (False, None)
         else (e = None, e))"

definition Client_reauth ::
  "UserToken lib \<Rightarrow> (Request \<Rightarrow> string + Response) \<Rightarrow> Client \<Rightarrow> UserToken DoResult" where
  "Client_reauth l net c =
     R_Do l net c
       (R_Params (R_UrlFor l c (Client_Req c) [''users'', username c, ''token''])
          [''ttl'', ''600''])
       ValueDest"

definition TokenSession :: "string \<Rightarrow> string \<Rightarrow> Client" where
  "TokenSession endpoint' token' =
     \<lparr>endpoint = endpoint', username = [], password = [], token = Some \<lparr>Token = token'\<rparr>,
      closer = ChanOpen, closed = False, traceLvl = [], traceToken = []\<rparr>"

text \<open>
  \<^verbatim>\<open>UserSession\<close>, lines 715 to 730: the session before it has a token, and the request
  for the first token.  The token decoded is the one the session starts with; a
  response without content leaves the empty \<^verbatim>\<open>UserToken\<close>.
\<close>

definition UserSession_client :: "string \<Rightarrow> string \<Rightarrow> string \<Rightarrow> Client" where
  "UserSession_client endpoint' username' password' =
     \<lparr>endpoint = endpoint', username = username', password = password', token = None,
      closer = ChanOpen, closed = False, traceLvl = [], traceToken = []\<rparr>"

definition UserSession_login ::
  "UserToken lib \<Rightarrow> (Request \<Rightarrow> string + Response) \<Rightarrow> Client \<Rightarrow> UserToken DoResult" where
  "UserSession_login l net c =
     R_Do l net c
       (R_Headers (R_UrlFor l c (Client_Req c) [''users'', username c, ''token''])
          [''Authorization'',
           ''Basic '' @ EncodeToString l (username c @ '':'' @ password c)])
       ValueDest"

definition new_token :: "UserToken DoResult \<Rightarrow> UserToken" where
  "new_token res = (case decoded res of None \<Rightarrow> \<lparr>Token = []\<rparr> | Some t \<Rightarrow> t)"

definition UserSession ::
  "UserToken lib \<Rightarrow> (Request \<Rightarrow> string + Response) \<Rightarrow> string \<Rightarrow> string \<Rightarrow> string
     \<Rightarrow> error + Client" where
  "UserSession l net endpoint' username' password' =
     (let c = UserSession_client endpoint' username' password';
          res = UserSession_login l net c
      in case returned res of
           Some e \<Rightarrow> Inl e
         | None \<Rightarrow> Inr (c\<lparr>token := Some (new_token res)\<rparr>))"

text \<open>
  One turn of the renewal goroutine on a tick (lines 738 to 745): \<^verbatim>\<open>reauth\<close>, then the
  new token replaces the old one; on an error \<^verbatim>\<open>log.Fatalf\<close> ends the process (\<open>None\<close>).
\<close>

definition renew_on_tick ::
  "UserToken lib \<Rightarrow> (Request \<Rightarrow> string + Response) \<Rightarrow> Client \<Rightarrow> Client option" where
  "renew_on_tick l net c =
     (let res = Client_reauth l net c
      in case returned res of
           Some e \<Rightarrow> None
         | None \<Rightarrow> Some (c\<lparr>token := Some (new_token res)\<rparr>))"

section \<open>Reading results\<close>

text \<open>The messages of a returned error (none for nil) and the query string of a builder.\<close>

fun error_messages :: "error option \<Rightarrow> string list" where
  "error_messages None = []"
| "error_messages (Some (ModelsError e)) = Messages e"
| "error_messages (Some (OtherError m)) = [m]"

definition query_of :: "R \<Rightarrow> string" where
  "query_of r = (case uri r of None \<Rightarrow> [] | Some u \<Rightarrow> RawQuery u)"

text \<open>The values of the \<^verbatim>\<open>Accept\<close> header of each request sent.\<close>

definition accept_of :: "Request list \<Rightarrow> string list list" where
  "accept_of reqs = map (\<lambda>req. Header_values (Header req) ''Accept'') reqs"

section \<open>The filter grammar of the specification\<close>

text \<open>
  The grammar as the specification words it, by recursion over the tokens that are left:
  \<^item> \<open>reverse\<close> emits one parameter;
  \<^item> \<open>sort\<close>, \<open>limit\<close> and \<open>offset\<close> each consume exactly one following token as their
    value; fewer tokens remaining is an error;
  \<^item> any other token is the index of a comparison clause; the token after it is the
    operator, case-insensitive and normalized to title case; \<open>Eq\<close>, \<open>Lt\<close>, \<open>Lte\<close>, \<open>Gt\<close>,
    \<open>Gte\<close> and \<open>Ne\<close> consume exactly one further value token and emit \<open>op(value)\<close>,
    \<open>Between\<close> and \<open>Except\<close> consume exactly two and emit \<open>op(lower,upper)\<close>; any other
    operator name is an error, and so is running out of tokens.
  \<open>emit\<close> puts the parameters of a clause in front of those of the clauses after it; an
  error anywhere is the result.
\<close>

definition emit :: "string list \<Rightarrow> string + string list \<Rightarrow> string + string list" where
  "emit params rest = (case rest of Inl e \<Rightarrow> Inl e | Inr ps \<Rightarrow> Inr (params @ ps))"

fun filter_grammar :: "string list \<Rightarrow> string + string list" where
  "filter_grammar [] = Inr []"
| "filter_grammar (t # ts) =
     (if t = ''reverse'' then emit [t, ''true''] (filter_grammar ts)
      else if t \<in> set one_parameter_filters
        then (case ts of
                [] \<Rightarrow> Inl (''Invalid Filter: '' @ t @ '' requires exactly one parameter'')
              | v # rest \<Rightarrow> emit [t, v] (filter_grammar rest))
      else (case ts of
              [] \<Rightarrow> Inl (''Invalid Filter: '' @ t @ '' requires an op and at least 1 parameter'')
            | op # rest \<Rightarrow>
                if Title (ToLower op) \<in> set unary_ops
                then (case rest of
                        [] \<Rightarrow> Inl (''Invalid Filter: '' @ t @ '' op '' @ Title (ToLower op)
                                    @ '' requires 1 parameter'')
                      | v # rest' \<Rightarrow>
                          emit [t, Title (ToLower op) @ ''('' @ v @ '')''] (filter_grammar rest'))
                else if Title (ToLower op) \<in> set binary_ops
                then (case rest of
                        lower # upper # rest' \<Rightarrow>
                          emit [t, Title (ToLower op) @ ''('' @ lower @ '','' @ upper @ '')'']
                            (filter_grammar rest')
                      | _ \<Rightarrow> Inl (''Invalid Filter: '' @ t @ '' op '' @ Title (ToLower op)
                                    @ '' requires 2 parameters''))
                else Inl (''Invalid Filter '' @ t @ '': unknown op '' @ Title (ToLower op))))"

section \<open>Concrete inputs\<close>

text \<open>
  A library for evaluating the client on concrete inputs: \<^verbatim>\<open>path.Join\<close> on clean path
  elements, a parser that takes every string but the empty one for a URL without a
  query, a media type that is the content type up to its parameters, and a decoder
  \<open>conv\<close> of the destination's type.
\<close>

fun join_slash :: "string list \<Rightarrow> string" where
  "join_slash [] = []"
| "join_slash [p] = p"
| "join_slash (p # q # ps) = p @ ''/'' @ join_slash (q # ps)"

definition example_lib :: "(string \<Rightarrow> 'v) \<Rightarrow> 'v lib" where
  "example_lib conv =
     \<lparr>path_Join = (\<lambda>elems. join_slash (filter (\<lambda>e. e \<noteq> []) elems)),
      ParseRequestURI =
        (\<lambda>s. if s = [] then Inl ''empty url'' else Inr \<lparr>Location = s, RawQuery = []\<rparr>),
      NewRequest_error = (\<lambda>m u. None),
      StatusText = (\<lambda>code. if code = 404 then ''Not Found'' else ''Internal Server Error''),
      ParseMediaType = takeWhile (\<lambda>ch. ch \<noteq> CHR '';''),
      Marshal = (\<lambda>b. Inr ''[]''),
      Decode = (\<lambda>d bytes. Inr (conv bytes)),
      Decode_Error =
        (\<lambda>bytes. Inr \<lparr>Model = [], Key = [], Type = ''API_ERROR'', Messages = [bytes],
                       Code = 0, containsError = True\<rparr>),
      EncodeToString = (\<lambda>s. s),
      GenPatch = (\<lambda>old new p. Inr [])\<rparr>"

text \<open>A transport that reaches no server, and one whose server answers \<open>resp\<close>.\<close>

definition unreachable :: "Request \<Rightarrow> string + Response" where
  "unreachable req = Inl ''connection refused''"

definition answers :: "Response \<Rightarrow> Request \<Rightarrow> string + Response" where
  "answers resp req = Inr resp"

definition json_response :: "int \<Rightarrow> string \<Rightarrow> Response" where
  "json_response code bytes =
     \<lparr>StatusCode = code, RespHeader = [''Content-Type'' \<mapsto> [''application/json'']],
      ContentLength = int (length bytes), RespBody = bytes\<rparr>"

text \<open>A session, the same session closed, and a request for the machine \<open>foo\<close>.\<close>

definition example_client :: Client where
  "example_client = TokenSession ''https://127.0.0.1:8092'' ''secret''"

definition closed_client :: Client where
  "closed_client = example_client\<lparr>closer := ChanClosed, closed := True\<rparr>"

definition machines_foo :: R where
  "machines_foo =
     R_UrlFor (example_lib (\<lambda>bytes. bytes)) example_client (Client_Req example_client)
       [''machines'', ''foo'']"

definition machine :: "string \<Rightarrow> ModelObj" where
  "machine name =
     \<lparr>Prefix = ''machines'', ModelKey = name, GoType = ''*models.Machine'', Content = []\<rparr>"

section \<open>Properties\<close>

subsection \<open>Evaluation\<close>

lemmas byte_defs = upper_letters_def lower_letters_def digits_def is_upper_def is_lower_def
  is_alnum_def to_lower_def to_upper_def

lemmas encode_defs = Encode_def sort_keys_def encode_key_def QueryEscape_def escape_byte_def
  shouldEscape_def upperhex_def

lemmas header_defs = Header_values_def Header_Add_def Header_Set_def Header_Get_def
  CanonicalMIMEHeaderKey_def validHeaderFieldByte_def canonical_byte_def

lemmas error_defs = Errorf_def AddError_def ContainsError_def HasError_def

lemmas builder_defs = Client_Req_def R_UrlFor_def Client_UrlFor_def R_Meth_def R_Get_def
  R_Head_def R_Del_def R_Params_def R_Headers_def APIPATH_def

lemmas filter_defs = one_parameter_filters_def unary_ops_def binary_ops_def Title_def
  ToLower_def isSeparator_def emit_def

lemmas do_defs = R_Do_def Do_headers_def Do_request_def Client_Authorize_def Do_response_def
  Client_Token_def Do_fail_def Let_def

lemmas example_defs = example_lib_def example_client_def closed_client_def machines_foo_def
  TokenSession_def unreachable_def answers_def json_response_def machine_def

subsection \<open>The loop of the filter compiler and the grammar\<close>

lemma emit_emit: "emit xs (emit ys res) = emit (xs @ ys) res"
  by (cases res) (simp_all add: emit_def)

lemma emit_Inl: "emit xs (Inl e) = Inl e"
  by (simp add: emit_def)

lemma emit_Inr: "emit xs (Inr ys) = Inr (xs @ ys)"
  by (simp add: emit_def)

lemma emit_Nil: "emit [] res = res"
  by (cases res) (simp_all add: emit_def)

lemma drop_step: "i < length xs \<Longrightarrow> drop i xs = xs ! i # drop (Suc i) xs"
  by (simp add: Cons_nth_drop_Suc)

text \<open>
  From any index, the loop returns what the grammar makes of the tokens from that index
  on, after the parameters collected so far.
\<close>

lemma Filter_loop_grammar:
  "i \<le> length filterArgs \<Longrightarrow>
     Filter_loop filterArgs i finalParams = emit finalParams (filter_grammar (drop i filterArgs))"
proof (induction filterArgs i finalParams rule: Filter_loop.induct)
  case (1 a i acc)
  note unfold = Filter_loop.simps [of a i acc]
  show ?case
  proof (cases "i < length a")
    case False
    with "1.prems" have "drop i a = []" by simp
    with False show ?thesis
      by (simp add: unfold emit_Inr)
  next
    case i0: True
    note d0 = drop_step [OF i0]
    show ?thesis
    proof (cases "a ! i = ''reverse''")
      case True
      from i0 have "Filter_loop a (i + 1) (acc @ [a ! i, ''true''])
          = emit (acc @ [a ! i, ''true'']) (filter_grammar (drop (i + 1) a))"
        using "1.IH"(1) True by simp
      with True i0 show ?thesis
        by (simp add: unfold d0 emit_emit)
    next
      case nrev: False
      show ?thesis
      proof (cases "Suc i < length a")
        case False
        with i0 have d1: "drop (Suc i) a = []" and len: "length a - i < 2" by simp_all
        from nrev i0 len show ?thesis
          by (simp add: unfold d0 d1 emit_Inl)
      next
        case i1: True
        note d1 = drop_step [OF i1]
        from i1 have len1: "\<not> length a - i < 2" by simp
        show ?thesis
        proof (cases "a ! i \<in> set one_parameter_filters")
          case True
          from i1 have "Filter_loop a (i + 2) (acc @ [a ! i, a ! (i + 1)])
              = emit (acc @ [a ! i, a ! (i + 1)]) (filter_grammar (drop (i + 2) a))"
            using "1.IH"(2) nrev True i0 len1 by simp
          with True nrev i0 len1 show ?thesis
            by (simp add: unfold d0 d1 emit_emit)
        next
          case nkw: False
          show ?thesis
          proof (cases "Title (ToLower (a ! (i + 1))) \<in> set unary_ops")
            case un: True
            show ?thesis
            proof (cases "Suc (Suc i) < length a")
              case False
              with i1 have d2: "drop (Suc (Suc i)) a = []" and len2: "length a - (i + 2) < 1"
                by simp_all
              from un nkw nrev i0 len1 len2 show ?thesis
                by (simp add: unfold d0 d1 d2 emit_Inl)
            next
              case i2: True
              note d2 = drop_step [OF i2]
              from i2 have len2: "\<not> length a - (i + 2) < 1" by simp
              have "Filter_loop a (i + 2 + 1)
                   (acc @ [a ! i, Title (ToLower (a ! (i + 1))) @ ''('' @ a ! (i + 2) @ '')''])
                 = emit (acc @ [a ! i, Title (ToLower (a ! (i + 1))) @ ''('' @ a ! (i + 2) @ '')''])
                     (filter_grammar (drop (i + 2 + 1) a))"
                using "1.IH"(3) nrev nkw un i0 i2 len1 len2 by simp
              with un nkw nrev i0 len1 len2 show ?thesis
                by (simp add: unfold d0 d1 d2 emit_emit)
            qed
          next
            case nun: False
            show ?thesis
            proof (cases "Title (ToLower (a ! (i + 1))) \<in> set binary_ops")
              case False
              with nun nkw nrev i0 len1 show ?thesis
                by (simp add: unfold d0 d1 emit_Inl)
            next
              case bin: True
              show ?thesis
              proof (cases "Suc (Suc (Suc i)) < length a")
                case False
                then have len2: "length a - (i + 2) < 2" by simp
                have "drop (Suc (Suc i)) a = [] \<or> (\<exists>x. drop (Suc (Suc i)) a = [x])"
                proof (cases "Suc (Suc i) < length a")
                  case True
                  with False have "drop (Suc (Suc (Suc i))) a = []" by simp
                  with drop_step [OF True] show ?thesis by simp
                next
                  case False
                  then show ?thesis by simp
                qed
                with bin nun nkw nrev i0 len1 len2 show ?thesis
                  by (auto simp add: unfold d0 d1 emit_Inl)
              next
                case i3: True
                then have i2: "Suc (Suc i) < length a" by simp
                note d2 = drop_step [OF i2]
                note d3 = drop_step [OF i3]
                from i3 have len2: "\<not> length a - (i + 2) < 2" by simp
                have "Filter_loop a (i + 2 + 2)
                     (acc @ [a ! i, Title (ToLower (a ! (i + 1))) @ ''('' @ a ! (i + 2) @ '',''
                                      @ a ! (i + 2 + 1) @ '')''])
                   = emit (acc @ [a ! i, Title (ToLower (a ! (i + 1))) @ ''('' @ a ! (i + 2) @ '',''
                                      @ a ! (i + 2 + 1) @ '')''])
                       (filter_grammar (drop (i + 2 + 2) a))"
                  using "1.IH"(4) nrev nkw nun bin i0 i3 len1 len2 by simp
                with bin nun nkw nrev i0 len1 len2 show ?thesis
                  by (simp add: unfold d0 d1 d2 d3 emit_emit numeral_Bit0 numeral_3_eq_3)
              qed
            qed
          qed
        qed
      qed
    qed
  qed
qed

lemma Filter_loop_is_grammar: "Filter_loop filterArgs 0 [] = filter_grammar filterArgs"
  using Filter_loop_grammar [of 0 filterArgs "[]"] by (simp add: emit_Nil)


subsection \<open>Params on a resolved URL\<close>


subsection \<open>Headers\<close>

lemma R_Headers_pair: "R_Headers r [k, v] = r\<lparr>header := Header_Add (header r) k v\<rparr>"
  by (simp add: R_Headers_def)

lemma Header_values_Add:
  "Header_values (Header_Add h k v) k' =
     (if CanonicalMIMEHeaderKey k' = CanonicalMIMEHeaderKey k then Header_values h k @ [v]
      else Header_values h k')"
  by (simp add: Header_values_def Header_Add_def)

lemma Header_values_Set:
  "Header_values (Header_Set h k v) k' =
     (if CanonicalMIMEHeaderKey k' = CanonicalMIMEHeaderKey k then [v] else Header_values h k')"
  by (simp add: Header_values_def Header_Set_def)

lemma canonical_keys:
  "CanonicalMIMEHeaderKey ''Accept'' = ''Accept''"
  "CanonicalMIMEHeaderKey ''X-Log-Request'' = ''X-Log-Request''"
  "CanonicalMIMEHeaderKey ''X-Log-Token'' = ''X-Log-Token''"
  "CanonicalMIMEHeaderKey ''Authorization'' = ''Authorization''"
  by (simp_all add: CanonicalMIMEHeaderKey_def validHeaderFieldByte_def canonical_byte_def
        byte_defs)

subsection \<open>The request that Do sends\<close>

lemma Do_with_error:
  "ContainsError (err r) \<Longrightarrow>
     sent (R_Do l net c r val) = []
     \<and> (\<exists>e. returned (R_Do l net c r val) = Some (ModelsError e)
              \<and> set (Messages (err r)) \<subseteq> set (Messages e))"
  by (auto simp: R_Do_def Do_fail_def Errorf_def split: option.splits)

lemma Do_headers_fields:
  "method' (Do_headers r val) = method' r" "uri (Do_headers r val) = uri r"
  "err (Do_headers r val) = err r" "body (Do_headers r val) = body r"
  by (simp_all add: Do_headers_def Let_def R_Headers_pair)

lemma Do_headers_Accept:
  "Header_values (header (Do_headers r val)) ''Accept''
     = Header_values (header r) ''Accept'' @ [''application/json'']
         @ (if is_Writer val then [''application/octet-stream''] else [])"
  by (simp add: Do_headers_def Let_def R_Headers_pair Header_values_Add canonical_keys)

lemma Do_request_Accept:
  "Header_values (Header (Do_request c r u)) ''Accept'' = Header_values (header r) ''Accept''"
  by (simp add: Do_request_def Client_Authorize_def Header_values_Set canonical_keys)

lemma sent_Do_response: "sent (Do_response l r val req resp) = [req]"
  by (simp add: Do_response_def Let_def split: sum.splits)

lemma R_Do_sends:
  assumes "uri r = Some u" "\<not> closed c" "\<not> ContainsError (err r)"
    and "NewRequest_error l (method' r) u = None"
  shows "sent (R_Do l net c r val) = [Do_request c (Do_headers r val) u]"
  using assms
  by (simp add: R_Do_def Let_def Do_headers_fields sent_Do_response split: sum.splits)

lemma R_Do_sent_cases:
  "sent (R_Do l net c r val) = []
   \<or> (\<exists>u. uri r = Some u \<and> \<not> closed c \<and> \<not> ContainsError (err r)
          \<and> NewRequest_error l (method' r) u = None
          \<and> sent (R_Do l net c r val) = [Do_request c (Do_headers r val) u])"
proof (cases "uri r")
  case None
  then show ?thesis by (simp add: R_Do_def Do_fail_def)
next
  case (Some u)
  show ?thesis
  proof (cases "closed c \<or> ContainsError (err r) \<or> NewRequest_error l (method' r) u \<noteq> None")
    case True
    with Some show ?thesis
      by (auto simp: R_Do_def Do_fail_def Let_def Do_headers_fields)
  next
    case False
    with Some R_Do_sends [of r u c l net val] show ?thesis by simp
  qed
qed

lemma R_Do_answered:
  assumes "sent (R_Do l net c r val) = [req]" and "net req = Inr resp"
  shows "\<not> ContainsError (err r)
    \<and> R_Do l net c r val
       = Do_response l ((Do_headers r val)\<lparr>header := Header req, Req := Some req\<rparr>) val req resp"
proof -
  from R_Do_sent_cases [of l net c r val] assms(1) obtain u where
    u: "uri r = Some u" "\<not> closed c" "\<not> ContainsError (err r)"
       "NewRequest_error l (method' r) u = None"
       "req = Do_request c (Do_headers r val) u"
    by auto
  with assms(2) show ?thesis
    by (simp add: R_Do_def Let_def Do_headers_fields)
qed

subsection \<open>The URLs of the token requests\<close>

lemma URL_Do_request: "URL (Do_request c r u) = u"
  by (simp add: Do_request_def Client_Authorize_def)

lemma UserSession_login_url:
  assumes "sent (UserSession_login l net c) = [req]"
  shows "Client_UrlFor l c [''users'', username c, ''token''] = Inr (URL req)"
proof -
  let ?r0 = "R_UrlFor l c (Client_Req c) [''users'', username c, ''token'']"
  let ?r = "R_Headers ?r0 [''Authorization'',
       ''Basic '' @ EncodeToString l (username c @ '':'' @ password c)]"
  from R_Do_sent_cases [of l net c ?r ValueDest] assms obtain u where
    u: "uri ?r = Some u" and q: "req = Do_request c (Do_headers ?r ValueDest) u"
    by (auto simp: UserSession_login_def)
  from u have "Client_UrlFor l c [''users'', username c, ''token''] = Inr u"
    by (simp add: R_Headers_pair R_UrlFor_def Client_Req_def split: sum.splits)
  with q show ?thesis
    by (simp add: URL_Do_request)
qed

lemma reauth_url:
  assumes "sent (Client_reauth l net c) = [req]"
  shows "\<exists>u. Client_UrlFor l c [''users'', username c, ''token''] = Inr u
           \<and> URL req = u\<lparr>RawQuery := ''ttl=600''\<rparr>"
proof -
  let ?r0 = "R_UrlFor l c (Client_Req c) [''users'', username c, ''token'']"
  let ?r = "R_Params ?r0 [''ttl'', ''600'']"
  have e: "Encode [(''ttl'', [''600''])] = ''ttl=600''"
    by (simp add: encode_defs byte_defs)
  from R_Do_sent_cases [of l net c ?r ValueDest] assms obtain u where
    u: "uri ?r = Some u" and q: "req = Do_request c (Do_headers ?r ValueDest) u"
    by (auto simp: Client_reauth_def)
  show ?thesis
  proof (cases "Client_UrlFor l c [''users'', username c, ''token'']")
    case (Inl m)
    with u show ?thesis
      by (simp add: R_Params_def R_UrlFor_def Client_Req_def)
  next
    case (Inr u0)
    with u have "u = u0\<lparr>RawQuery := ''ttl=600''\<rparr>"
      by (auto simp: R_Params_def R_UrlFor_def Client_Req_def e)
    with Inr q show ?thesis
      by (simp add: URL_Do_request)
  qed
qed

subsection \<open>C1: the checks of Do\<close>

text \<open>
  Claim C1.  \<^verbatim>\<open>Do\<close> checks its preconditions in order, before any network interaction:
  without a resolved URL it returns the builder's error with the message
  "No URL to talk to", whatever else holds; with a URL and a closed session it returns
  it with the message "Connection Closed", whatever was recorded before; with a URL, an
  open session and an error recorded by an earlier call of the chain it returns that
  error as it is.  In each of the three cases no request is handed to the transport and
  none is constructed: the builder's \<^verbatim>\<open>Req\<close> is what it was.
\<close>

theorem Do_checks_preconditions:
  "(uri r = None \<longrightarrow>
      returned (R_Do l net c r val) = Some (ModelsError (Errorf (err r) ''No URL to talk to''))
      \<and> sent (R_Do l net c r val) = [] \<and> Req (final (R_Do l net c r val)) = Req r)
   \<and> (uri r \<noteq> None \<and> closed c \<longrightarrow>
      returned (R_Do l net c r val) = Some (ModelsError (Errorf (err r) ''Connection Closed''))
      \<and> sent (R_Do l net c r val) = [] \<and> Req (final (R_Do l net c r val)) = Req r)
   \<and> (uri r \<noteq> None \<and> \<not> closed c \<and> ContainsError (err r) \<longrightarrow>
      returned (R_Do l net c r val) = Some (ModelsError (err r))
      \<and> sent (R_Do l net c r val) = [] \<and> Req (final (R_Do l net c r val)) = Req r)"
  by (auto simp: R_Do_def Do_fail_def)

theorem Do_checks_preconditions_witness:
  "error_messages (returned (R_Do (example_lib (\<lambda>b. b)) unreachable example_client
       (Client_Req example_client) NilDest)) = [''No URL to talk to'']
   \<and> sent (R_Do (example_lib (\<lambda>b. b)) unreachable example_client
       (Client_Req example_client) NilDest) = []
   \<and> error_messages (returned (R_Do (example_lib (\<lambda>b. b)) unreachable closed_client
       machines_foo NilDest)) = [''Connection Closed'']
   \<and> sent (R_Do (example_lib (\<lambda>b. b)) unreachable closed_client machines_foo NilDest) = []
   \<and> error_messages (returned (R_Do (example_lib (\<lambda>b. b)) unreachable example_client
       (R_Params machines_foo [''odd'']) NilDest))
       = [''WithParams was not passed an even number of arguments'']
   \<and> sent (R_Do (example_lib (\<lambda>b. b)) unreachable example_client
       (R_Params machines_foo [''odd'']) NilDest) = []"
  using Do_checks_preconditions [of "Client_Req example_client" "example_lib (\<lambda>b. b)" unreachable
          example_client NilDest]
        Do_checks_preconditions [of machines_foo "example_lib (\<lambda>b. b)" unreachable
          closed_client NilDest]
        Do_checks_preconditions [of "R_Params machines_foo [''odd'']" "example_lib (\<lambda>b. b)"
          unreachable example_client NilDest]
  by (simp add: builder_defs example_defs error_defs)

subsection \<open>C2: requests after Close\<close>

text \<open>
  Claim C2, as the code has it.  After \<^verbatim>\<open>Close\<close> has returned, \<^verbatim>\<open>Do\<close> on any request of the
  session returns the builder's error and hands nothing to the transport; the message
  it adds is "Connection Closed" when the request has a resolved URL and
  "No URL to talk to" when it has none, since the URL is checked first.
\<close>

theorem Do_after_Close:
  "Client_Close c = Some c' \<Longrightarrow>
     returned (R_Do l net c' r val)
       = Some (ModelsError (Errorf (err r)
           (if uri r = None then ''No URL to talk to'' else ''Connection Closed'')))
     \<and> sent (R_Do l net c' r val) = []
     \<and> Req (final (R_Do l net c' r val)) = Req r"
  by (auto simp: Client_Close_def R_Do_def Do_fail_def split: if_splits)

theorem Do_after_Close_witness:
  "Client_Close example_client = Some closed_client
   \<and> error_messages (returned (R_Do (example_lib (\<lambda>b. b)) unreachable closed_client
        machines_foo NilDest)) = [''Connection Closed'']
   \<and> sent (R_Do (example_lib (\<lambda>b. b)) unreachable closed_client machines_foo NilDest) = []"
  using Do_after_Close [of example_client closed_client "example_lib (\<lambda>b. b)" unreachable
          machines_foo NilDest]
  by (simp add: Client_Close_def builder_defs example_defs error_defs)

text \<open>
  Claim C2 as stated fails for \<^verbatim>\<open>c.Req().Do(nil)\<close> itself: a new request has no URL, and
  on the closed session \<^verbatim>\<open>Do\<close> returns "No URL to talk to", not "Connection Closed".
\<close>

theorem Req_Do_after_Close_counterexample:
  "Client_Close example_client = Some closed_client
   \<and> error_messages (returned (R_Do (example_lib (\<lambda>b. b)) unreachable closed_client
        (Client_Req closed_client) NilDest)) = [''No URL to talk to'']"
  by (simp add: Client_Close_def R_Do_def Do_fail_def builder_defs example_defs error_defs)

subsection \<open>C3: the filter compiler follows the grammar\<close>

text \<open>
  Claim C3.  For every token sequence the loop of \<^verbatim>\<open>Filter\<close> returns what the grammar of the
  specification returns: the parameters of the clauses read from left to right, or the
  error of the first clause that is short of tokens or names an unknown operator; and
  \<^verbatim>\<open>Filter\<close> records that error in the builder, or passes the parameters to \<^verbatim>\<open>Params\<close>.
\<close>

theorem Filter_consumes_by_grammar:
  "Filter_loop filterArgs 0 [] = filter_grammar filterArgs
   \<and> R_Filter l c r prefix filterArgs =
       (case filter_grammar filterArgs of
          Inl msg \<Rightarrow>
            (R_UrlFor l c (R_Get r) [prefix])
              \<lparr>err := Errorf (err (R_UrlFor l c (R_Get r) [prefix])) msg\<rparr>
        | Inr params \<Rightarrow> R_Params (R_UrlFor l c (R_Get r) [prefix]) params)"
  by (simp add: R_Filter_def Filter_loop_is_grammar Let_def)

theorem Filter_consumes_by_grammar_witness:
  "Filter_loop [''reverse'', ''sort'', ''Name'', ''Name'', ''bEtWeen'', ''a'', ''b'', ''Addr'', ''ne'', ''x''] 0 []
     = Inr [''reverse'', ''true'', ''sort'', ''Name'', ''Name'', ''Between(a,b)'', ''Addr'', ''Ne(x)'']
   \<and> Filter_loop [''Name'', ''like'', ''x''] 0 [] = Inl ''Invalid Filter Name: unknown op Like''
   \<and> Filter_loop [''Name'', ''except'', ''x''] 0 []
     = Inl ''Invalid Filter: Name op Except requires 2 parameters''
   \<and> Filter_loop [''limit''] 0 [] = Inl ''Invalid Filter: limit requires exactly one parameter''"
  using Filter_consumes_by_grammar [THEN conjunct1, of "[''reverse'', ''sort'', ''Name'', ''Name'', ''bEtWeen'', ''a'', ''b'', ''Addr'', ''ne'', ''x'']"]
    Filter_consumes_by_grammar [THEN conjunct1, of "[''Name'', ''like'', ''x'']"]
    Filter_consumes_by_grammar [THEN conjunct1, of "[''Name'', ''except'', ''x'']"]
    Filter_consumes_by_grammar [THEN conjunct1, of "[''limit'']"]
  by (simp add: filter_defs byte_defs)

subsection \<open>C4: the query string of the example\<close>

text \<open>
  Claim C4, as the code has it.  \<^verbatim>\<open>Filter\<close> with the tokens name, Eq, foo, limit, 10 makes
  a GET request whose query string is \<^verbatim>\<open>limit=10&name=Eq%28foo%29\<close>, whenever the URL of the
  resource type resolves (or a URL was resolved before): the parameters name=Eq(foo) and
  limit=10 go through \<^verbatim>\<open>url.Values.Encode\<close>, which sorts them by key and percent-encodes
  the parentheses.
\<close>

theorem Filter_example_query:
  "uri (R_UrlFor l c (R_Get r) [prefix]) \<noteq> None \<Longrightarrow>
     query_of (R_Filter l c r prefix [''name'', ''Eq'', ''foo'', ''limit'', ''10''])
       = ''limit=10&name=Eq%28foo%29''
     \<and> method' (R_Filter l c r prefix [''name'', ''Eq'', ''foo'', ''limit'', ''10'']) = ''GET''"
proof -
  assume "uri (R_UrlFor l c (R_Get r) [prefix]) \<noteq> None"
  then obtain u where u: "uri (R_UrlFor l c (R_Get r) [prefix]) = Some u" by auto
  have g: "Filter_loop [''name'', ''Eq'', ''foo'', ''limit'', ''10''] 0 []
      = Inr [''name'', ''Eq(foo)'', ''limit'', ''10'']"
    by (simp add: Filter_loop_is_grammar filter_defs byte_defs)
  have m: "method' (R_UrlFor l c (R_Get r) [prefix]) = ''GET''"
    by (simp add: R_UrlFor_def R_Get_def R_Meth_def split: sum.splits)
  have e: "Encode (add_values [] [''name'', ''Eq(foo)'', ''limit'', ''10'']) = ''limit=10&name=Eq%28foo%29''"
    by (simp add: encode_defs byte_defs)
  from u g m e show ?thesis
    by (simp add: R_Filter_def Let_def R_Params_def query_of_def)
qed

theorem Filter_example_query_witness:
  "query_of (R_Filter (example_lib (\<lambda>b. b)) example_client machines_foo ''machines''
      [''name'', ''Eq'', ''foo'', ''limit'', ''10'']) = ''limit=10&name=Eq%28foo%29''
   \<and> Contains ''limit=10&name=Eq%28foo%29'' ''limit=10''
   \<and> Contains ''limit=10&name=Eq%28foo%29'' ''name=Eq%28foo%29''"
  using Filter_example_query [of "example_lib (\<lambda>b. b)" example_client machines_foo "''machines''"]
  by (simp add: builder_defs example_defs)

text \<open>
  Claim C4 as stated fails: the query string of the request does not contain the text
  \<^verbatim>\<open>name=Eq(foo)\<close>.
\<close>

theorem Filter_example_query_counterexample:
  "\<not> Contains (query_of (R_Filter (example_lib (\<lambda>b. b)) example_client machines_foo ''machines''
      [''name'', ''Eq'', ''foo'', ''limit'', ''10''])) ''name=Eq(foo)''"
proof -
  have "query_of (R_Filter (example_lib (\<lambda>b. b)) example_client machines_foo ''machines''
      [''name'', ''Eq'', ''foo'', ''limit'', ''10'']) = ''limit=10&name=Eq%28foo%29''"
    by (simp add: query_of_def builder_defs example_defs encode_defs byte_defs
        Filter_loop_is_grammar filter_defs R_Filter_def)
  then show ?thesis by simp
qed

subsection \<open>C5: a patch across identities\<close>

text \<open>
  Claim C5.  When \<^verbatim>\<open>old\<close> and \<^verbatim>\<open>new\<close> differ in their prefix or in their key,
  \<^verbatim>\<open>PatchTo\<close> records the identity-mismatch message in the builder's error and makes no
  patch: the body, the method, the header and the URL of the request are what they were;
  \<^verbatim>\<open>Do\<close> then returns an error with that message and hands nothing to the transport.
\<close>

theorem PatchTo_identity_mismatch:
  assumes "Prefix old \<noteq> Prefix new \<or> ModelKey old \<noteq> ModelKey new"
  shows "ContainsError (err (R_PatchTo l c r old new))
     \<and> Messages (err (R_PatchTo l c r old new)) = Messages (err r) @ [patch_mismatch old new]
     \<and> body (R_PatchTo l c r old new) = body r
     \<and> method' (R_PatchTo l c r old new) = method' r
     \<and> header (R_PatchTo l c r old new) = header r
     \<and> uri (R_PatchTo l c r old new) = uri r
     \<and> patch_mismatch old new
          \<in> set (error_messages (returned (R_Do l net c (R_PatchTo l c r old new) val)))
     \<and> sent (R_Do l net c (R_PatchTo l c r old new) val) = []"
proof -
  let ?r = "R_PatchTo l c r old new"
  from assms have eq: "?r = r\<lparr>err := Errorf ((err r)\<lparr>Model := ModelKey old\<rparr>) (patch_mismatch old new)\<rparr>"
    by (auto simp: R_PatchTo_def)
  have ce: "ContainsError (err ?r)"
    by (simp add: eq ContainsError_def Errorf_def)
  have ms: "Messages (err ?r) = Messages (err r) @ [patch_mismatch old new]"
    by (simp add: eq Errorf_def)
  from Do_with_error [OF ce, of l net c val] obtain e where
    s: "sent (R_Do l net c ?r val) = []"
    and e: "returned (R_Do l net c ?r val) = Some (ModelsError e)"
    and sub: "set (Messages (err ?r)) \<subseteq> set (Messages e)"
    by blast
  from sub ms have "patch_mismatch old new \<in> set (Messages e)" by auto
  with e have "patch_mismatch old new \<in> set (error_messages (returned (R_Do l net c ?r val)))"
    by simp
  with ce ms s show ?thesis
    by (simp add: eq)
qed

theorem PatchTo_identity_mismatch_witness:
  "Messages (err (R_PatchTo (example_lib (\<lambda>b. b)) example_client (Client_Req example_client)
       (machine ''foo'') (machine ''bar'')))
     = [''Cannot patch from *models.Machine to *models.Machine, or change keys from foo to bar'']
   \<and> body (R_PatchTo (example_lib (\<lambda>b. b)) example_client (Client_Req example_client)
       (machine ''foo'') (machine ''bar'')) = None
   \<and> method' (R_PatchTo (example_lib (\<lambda>b. b)) example_client (Client_Req example_client)
       (machine ''foo'') (machine ''bar'')) = ''GET''
   \<and> sent (R_Do (example_lib (\<lambda>b. b)) unreachable example_client
       (R_PatchTo (example_lib (\<lambda>b. b)) example_client (Client_Req example_client)
          (machine ''foo'') (machine ''bar'')) ValueDest) = []
   \<and> body (R_PatchTo (example_lib (\<lambda>b. b)) example_client (Client_Req example_client)
       (machine ''foo'') (machine ''foo'')) = Some ''[]''
   \<and> method' (R_PatchTo (example_lib (\<lambda>b. b)) example_client (Client_Req example_client)
       (machine ''foo'') (machine ''foo'')) = ''PATCH''"
  using PatchTo_identity_mismatch [of "machine ''foo''" "machine ''bar''" "example_lib (\<lambda>b. b)"
          example_client "Client_Req example_client" unreachable ValueDest]
  by (simp add: R_PatchTo_def R_PatchObj_def R_Body_def R_UrlForM_def patch_mismatch_def
        builder_defs example_defs error_defs)

subsection \<open>C6: the first token of a user session\<close>

text \<open>
  Claim C6, evaluated.  For the user rocketskates, the request of \<^verbatim>\<open>UserSession\<close> for the
  first token has an empty query string: it asks for no validity window, so the token
  lasts as long as the server's default.  The request of \<^verbatim>\<open>reauth\<close> has the query
  \<^verbatim>\<open>ttl=600\<close>.  A tick of the renewal loop with a successful \<^verbatim>\<open>reauth\<close> replaces the
  session's token by the new one.  The timer and the mutex are outside this model.
\<close>

theorem UserSession_first_token_request:
  "map (\<lambda>req. RawQuery (URL req))
      (sent (UserSession_login (example_lib (\<lambda>bytes. \<lparr>Token = bytes\<rparr>))
         (answers (json_response 200 ''t0''))
         (UserSession_client ''https://127.0.0.1:8092'' ''rocketskates'' ''r0cketsk8ts''))) = [[]]
   \<and> UserSession (example_lib (\<lambda>bytes. \<lparr>Token = bytes\<rparr>)) (answers (json_response 200 ''t0''))
        ''https://127.0.0.1:8092'' ''rocketskates'' ''r0cketsk8ts''
      = Inr ((UserSession_client ''https://127.0.0.1:8092'' ''rocketskates'' ''r0cketsk8ts'')
               \<lparr>token := Some \<lparr>Token = ''t0''\<rparr>\<rparr>)
   \<and> map (\<lambda>req. RawQuery (URL req))
      (sent (Client_reauth (example_lib (\<lambda>bytes. \<lparr>Token = bytes\<rparr>))
         (answers (json_response 200 ''t1''))
         ((UserSession_client ''https://127.0.0.1:8092'' ''rocketskates'' ''r0cketsk8ts'')
               \<lparr>token := Some \<lparr>Token = ''t0''\<rparr>\<rparr>))) = [''ttl=600'']
   \<and> renew_on_tick (example_lib (\<lambda>bytes. \<lparr>Token = bytes\<rparr>)) (answers (json_response 200 ''t1''))
        ((UserSession_client ''https://127.0.0.1:8092'' ''rocketskates'' ''r0cketsk8ts'')
               \<lparr>token := Some \<lparr>Token = ''t0''\<rparr>\<rparr>)
      = Some ((UserSession_client ''https://127.0.0.1:8092'' ''rocketskates'' ''r0cketsk8ts'')
               \<lparr>token := Some \<lparr>Token = ''t1''\<rparr>\<rparr>)"
  by (simp add: UserSession_def UserSession_login_def UserSession_client_def Client_reauth_def
        renew_on_tick_def new_token_def do_defs builder_defs example_defs error_defs header_defs
        encode_defs byte_defs)

subsection \<open>C7: the Accept header\<close>

text \<open>
  Claim C7, as the code has it.  Every request that \<^verbatim>\<open>Do\<close> hands to the transport has the
  value \<^verbatim>\<open>application/json\<close> added to its \<^verbatim>\<open>Accept\<close> header, after the values the builder
  had; when the destination is an \<^verbatim>\<open>io.Writer\<close>, the value \<^verbatim>\<open>application/octet-stream\<close> is
  added after it, so that the request accepts both.
\<close>

theorem Do_Accept_header:
  assumes "uri r = Some u" "\<not> closed c" "\<not> ContainsError (err r)"
    and "NewRequest_error l (method' r) u = None"
  shows "accept_of (sent (R_Do l net c r val))
     = [Header_values (header r) ''Accept'' @ [''application/json'']
          @ (if is_Writer val then [''application/octet-stream''] else [])]"
  using R_Do_sends [OF assms, of net val]
  by (simp add: accept_of_def Do_request_Accept Do_headers_Accept)

theorem Do_Accept_header_witness:
  "accept_of (sent (R_Do (example_lib (\<lambda>b. b)) unreachable example_client machines_foo ValueDest))
     = [[''application/json'']]
   \<and> accept_of (sent (R_Do (example_lib (\<lambda>b. b)) unreachable example_client
        (R_Headers machines_foo [''accept'', ''text/plain'']) (WriterDest (\<lambda>bytes. None))))
     = [[''text/plain'', ''application/json'', ''application/octet-stream'']]"
  using Do_Accept_header [of machines_foo
          "\<lparr>Location = ''https://127.0.0.1:8092/api/v3/machines/foo'', RawQuery = []\<rparr>"
          example_client "example_lib (\<lambda>b. b)" unreachable ValueDest]
        Do_Accept_header [of "R_Headers machines_foo [''accept'', ''text/plain'']"
          "\<lparr>Location = ''https://127.0.0.1:8092/api/v3/machines/foo'', RawQuery = []\<rparr>"
          example_client "example_lib (\<lambda>b. b)" unreachable "WriterDest (\<lambda>bytes. None)"]
  by (simp add: builder_defs example_defs error_defs header_defs byte_defs)

text \<open>
  Claim C7 as stated fails: with an \<^verbatim>\<open>io.Writer\<close> as destination the request still asks for
  JSON, and for an octet stream besides.
\<close>

theorem Do_Accept_writer_counterexample:
  "accept_of (sent (R_Do (example_lib (\<lambda>b. b)) unreachable example_client machines_foo
      (WriterDest (\<lambda>bytes. None))))
     = [[''application/json'', ''application/octet-stream'']]"
proof -
  have "sent (R_Do (example_lib (\<lambda>b. b)) unreachable example_client machines_foo
      (WriterDest (\<lambda>bytes. None)))
    = [Do_request example_client (Do_headers machines_foo (WriterDest (\<lambda>bytes. None)))
         \<lparr>Location = ''https://127.0.0.1:8092/api/v3/machines/foo'', RawQuery = []\<rparr>]"
    by (rule R_Do_sends) (simp_all add: builder_defs example_defs error_defs)
  then show ?thesis
    by (simp add: accept_of_def Do_request_Accept Do_headers_Accept)
       (simp add: builder_defs example_defs header_defs)
qed

subsection \<open>C8: ExistsModel\<close>

text \<open>
  Claim C8.  When the request of \<^verbatim>\<open>ExistsModel\<close> is sent and the server answers, the result
  is (false, nil) for the status 404 (not found), (true, nil) for a status up to 300,
  and for every other status false with an error that carries the status code and its
  text.
\<close>

theorem ExistsModel_by_status:
  assumes "sent (ExistsModel_Do l net c prefix key) = [req]" and "net req = Inr resp"
  shows "(StatusCode resp = 404 \<longrightarrow> Client_ExistsModel l net c prefix key = (False, None))
     \<and> (StatusCode resp \<le> 300 \<longrightarrow> Client_ExistsModel l net c prefix key = (True, None))
     \<and> (300 < StatusCode resp \<and> StatusCode resp \<noteq> 404 \<longrightarrow>
          (\<exists>e. Client_ExistsModel l net c prefix key = (False, Some (ModelsError e))
               \<and> Code e = StatusCode resp
               \<and> Messages e = [StatusText l (StatusCode resp)]))"
proof -
  let ?r = "R_UrlFor l c (R_Head (Client_Req c)) [prefix, key]"
  from assms have a: "\<not> ContainsError (err ?r)"
    and d: "ExistsModel_Do l net c prefix key
       = Do_response l ((Do_headers ?r NilDest)\<lparr>header := Header req, Req := Some req\<rparr>) NilDest req resp"
    using R_Do_answered [of l net c ?r NilDest req resp]
    by (simp_all add: ExistsModel_Do_def)
  have m: "method' ?r = ''HEAD''"
    by (simp add: R_UrlFor_def R_Head_def R_Meth_def split: sum.splits)
  from a have ms: "Messages (err ?r) = []"
    by (simp add: R_UrlFor_def R_Head_def R_Meth_def Client_Req_def AddError_def
          ContainsError_def split: sum.splits)
  have r: "returned (ExistsModel_Do l net c prefix key)
     = (if StatusCode resp \<le> 300 then None
        else Some (ModelsError ((Errorf (err ?r) (StatusText l (StatusCode resp)))
                                   \<lparr>Code := StatusCode resp\<rparr>)))"
    by (simp add: d Do_response_def Let_def Do_headers_fields m)
  show ?thesis
    by (simp add: Client_ExistsModel_def Let_def r Errorf_def ms)
qed

theorem ExistsModel_by_status_witness:
  "Client_ExistsModel (example_lib (\<lambda>b. b)) (answers (json_response 404 [])) example_client
      ''machines'' ''foo'' = (False, None)
   \<and> Client_ExistsModel (example_lib (\<lambda>b. b)) (answers (json_response 200 [])) example_client
      ''machines'' ''foo'' = (True, None)
   \<and> fst (Client_ExistsModel (example_lib (\<lambda>b. b)) (answers (json_response 500 []))
        example_client ''machines'' ''foo'') = False
   \<and> error_messages (snd (Client_ExistsModel (example_lib (\<lambda>b. b))
        (answers (json_response 500 [])) example_client ''machines'' ''foo''))
     = [''Internal Server Error'']"
proof -
  let ?l = "example_lib (\<lambda>b. b) :: string lib"
  let ?u = "\<lparr>Location = ''https://127.0.0.1:8092/api/v3/machines/foo'', RawQuery = []\<rparr>"
  let ?r = "R_UrlFor ?l example_client (R_Head (Client_Req example_client)) [''machines'', ''foo'']"
  have s: "sent (ExistsModel_Do ?l (answers resp) example_client ''machines'' ''foo'')
      = [Do_request example_client (Do_headers ?r NilDest) ?u]" for resp
    unfolding ExistsModel_Do_def
    by (rule R_Do_sends) (simp_all add: builder_defs example_defs error_defs)
  have n: "answers resp req = Inr resp" for resp req
    by (simp add: answers_def)
  from ExistsModel_by_status [OF s n, of "json_response 404 []"]
    ExistsModel_by_status [OF s n, of "json_response 200 []"]
    ExistsModel_by_status [OF s n, of "json_response 500 []"]
  show ?thesis
    by (auto simp: json_response_def example_lib_def)
qed

subsection \<open>C9: Params replaces the query string\<close>




subsection \<open>C10: a JSON response below 400\<close>

text \<open>
  Claim C10.  For a request that is not HEAD, with a destination that is no
  \<^verbatim>\<open>io.Writer\<close>, and a response of content type \<^verbatim>\<open>application/json\<close>: with any status
  below 400, the 300s included, \<^verbatim>\<open>Do\<close> decodes the body into the destination when there
  is a destination and the content length is not 0, and returns nil unless that decoding
  fails, in which case it returns the decoder's error; only with a status of 400 or more
  does it decode the body into a \<^verbatim>\<open>models.Error\<close> and return that as the error.
\<close>

theorem Do_json_below_400:
  assumes "sent (R_Do l net c r val) = [req]" and "net req = Inr resp"
    and "method' r \<noteq> ''HEAD''" and "\<not> is_Writer val"
    and "ParseMediaType l (Header_Get (RespHeader resp) ''Content-Type'') = ''application/json''"
  shows "(StatusCode resp < 400 \<longrightarrow>
       returned (R_Do l net c r val)
         = (if \<not> is_Nil val \<and> ContentLength resp \<noteq> 0
            then (case Decode l val (RespBody resp) of
                    Inl m \<Rightarrow> Some (ModelsError (AddError (err r) (Some (OtherError m))))
                  | Inr v \<Rightarrow> None)
            else None)
       \<and> decoded (R_Do l net c r val)
         = (if \<not> is_Nil val \<and> ContentLength resp \<noteq> 0
            then (case Decode l val (RespBody resp) of Inl m \<Rightarrow> None | Inr v \<Rightarrow> Some v)
            else None))
     \<and> (400 \<le> StatusCode resp \<longrightarrow>
       returned (R_Do l net c r val)
         = Some (ModelsError (case Decode_Error l (RespBody resp) of
                    Inl m \<Rightarrow> AddError ((err r)\<lparr>Code := StatusCode resp\<rparr>) (Some (OtherError m))
                  | Inr e \<Rightarrow> e))
       \<and> decoded (R_Do l net c r val) = None)"
proof -
  from R_Do_answered [OF assms(1,2)] have a: "\<not> ContainsError (err r)"
    and d: "R_Do l net c r val
       = Do_response l ((Do_headers r val)\<lparr>header := Header req, Req := Some req\<rparr>) val req resp"
    by simp_all
  from a have h: "HasError (err r) = None"
    by (simp add: HasError_def ContainsError_def)
  from a have h': "HasError (AddError (err r) (Some (OtherError m)))
      = Some (ModelsError (AddError (err r) (Some (OtherError m))))" for m
    by (simp add: HasError_def AddError_def)
  show ?thesis
    using assms(3,4,5)
    by (simp add: d Do_response_def Let_def Do_headers_fields h h' split: sum.splits)
qed

theorem Do_json_below_400_witness:
  "returned (R_Do (example_lib (\<lambda>b. b)) (answers (json_response 302 ''{}'')) example_client
       machines_foo ValueDest) = None
   \<and> decoded (R_Do (example_lib (\<lambda>b. b)) (answers (json_response 302 ''{}'')) example_client
       machines_foo ValueDest) = Some ''{}''
   \<and> decoded (R_Do (example_lib (\<lambda>b. b)) (answers (json_response 200 [])) example_client
       machines_foo ValueDest) = None
   \<and> error_messages (returned (R_Do (example_lib (\<lambda>b. b)) (answers (json_response 404 ''gone''))
       example_client machines_foo ValueDest)) = [''gone'']"
proof -
  let ?l = "example_lib (\<lambda>b. b) :: string lib"
  let ?u = "\<lparr>Location = ''https://127.0.0.1:8092/api/v3/machines/foo'', RawQuery = []\<rparr>"
  have s: "sent (R_Do ?l (answers resp) example_client machines_foo ValueDest)
      = [Do_request example_client (Do_headers machines_foo ValueDest) ?u]" for resp
    by (rule R_Do_sends) (simp_all add: builder_defs example_defs error_defs)
  have n: "answers resp req = Inr resp" for resp req
    by (simp add: answers_def)
  have m: "method' machines_foo \<noteq> ''HEAD''"
    by (simp add: builder_defs example_defs)
  have w: "\<not> is_Writer ValueDest" by simp
  have t: "ParseMediaType ?l (Header_Get (RespHeader (json_response code bytes)) ''Content-Type'')
      = ''application/json''" for code bytes
    by (simp add: example_lib_def json_response_def header_defs byte_defs)
  from Do_json_below_400 [OF s n m w t, of 302 "''{}''"]
    Do_json_below_400 [OF s n m w t, of 200 "[]"]
    Do_json_below_400 [OF s n m w t, of 404 "''gone''"]
  show ?thesis
    by (simp add: json_response_def example_lib_def)
qed

end
